theory Spec2Isabelle
  imports Complex_Main "HOL-Library.Monad_Syntax"
begin

section \<open>Common C-level notions of the four LADSPA kernels\<close>

text \<open>
  The four plugins (\<^verbatim>\<open>comb.c\<close>, \<^verbatim>\<open>fir.c\<close>, \<^verbatim>\<open>iir.c\<close>, \<^verbatim>\<open>reson.c\<close>) are embedded
  function by function. Conventions of the embedding:

  \<^item> \<^verbatim>\<open>LADSPA_Data\<close> (a C \<^verbatim>\<open>float\<close>) is a \<^typ>\<open>real\<close>: arithmetic is exact, there is no
    rounding, no overflow to infinity and no NaN. An operation whose C result is undefined
    or not a finite number (division by zero, \<^verbatim>\<open>acos\<close> outside its domain, a conversion to an
    unsigned integer type that does not fit, \<^verbatim>\<open>%\<close> by zero, an access outside a buffer, a
    \<^verbatim>\<open>free\<close> of a pointer that is not live) is the value \<open>None\<close>.
  \<^item> \<^verbatim>\<open>unsigned long\<close> is a \<^typ>\<open>nat\<close> of 64 bits, \<^verbatim>\<open>unsigned int\<close> one of 32 bits; the
    wrap-around of an addition is written out as \<open>mod 2 ^ 64\<close>.
  \<^item> A pointer field of \<^verbatim>\<open>filter_type\<close> that is connected to a host location holds the content
    of that location: a control port is a \<^typ>\<open>real\<close>, an audio port a \<^typ>\<open>real list\<close>.
    Input and output ports are distinct buffers.
  \<^item> The two history pointers are values of type \<open>buffer\<close>, which records whether the pointer
    is indeterminate, null, points to a live block, or dangles after \<^verbatim>\<open>free\<close>.
  \<^item> Each source file has its own \<^verbatim>\<open>filter_type\<close> and its own \<^verbatim>\<open>run_filter\<close>,
    \<^verbatim>\<open>activate_filter\<close>, ...; the names are prefixed with the kernel.
\<close>

datatype buffer = Wild | Null | Block "real list" | Freed

definition ULONG_BITS :: nat where
  "ULONG_BITS = 64"

definition UINT_BITS :: nat where
  "UINT_BITS = 32"

text \<open>Conversion of a floating value to an unsigned type of \<open>w\<close> bits: the value is
  truncated towards zero; the behaviour is undefined when the truncated value does not fit.\<close>

definition float_to_unsigned :: "nat \<Rightarrow> real \<Rightarrow> nat option" where
  "float_to_unsigned w v =
     (if v \<le> - 1 \<or> 2 ^ w \<le> v then None
      else Some (if v < 0 then 0 else nat \<lfloor>v\<rfloor>))"

definition c_mod :: "nat \<Rightarrow> nat \<Rightarrow> nat option" where
  "c_mod a b = (if b = 0 then None else Some (a mod b))"

definition ulong_add :: "nat \<Rightarrow> nat \<Rightarrow> nat" where
  "ulong_add a b = (a + b) mod 2 ^ ULONG_BITS"

definition audio_read :: "real list \<Rightarrow> nat \<Rightarrow> real option" where
  "audio_read xs i = (if i < length xs then Some (xs ! i) else None)"

definition audio_write :: "real list \<Rightarrow> nat \<Rightarrow> real \<Rightarrow> real list option" where
  "audio_write xs i v = (if i < length xs then Some (xs[i := v]) else None)"

definition buf_read :: "buffer \<Rightarrow> nat \<Rightarrow> real option" where
  "buf_read b i = (case b of Block h \<Rightarrow> audio_read h i | _ \<Rightarrow> None)"

definition buf_write :: "buffer \<Rightarrow> nat \<Rightarrow> real \<Rightarrow> buffer option" where
  "buf_write b i v = (case b of Block h \<Rightarrow> map_option Block (audio_write h i v) | _ \<Rightarrow> None)"

text \<open>\<^verbatim>\<open>calloc(n, size)\<close>: a live block of zeros. The source passes
  \<^verbatim>\<open>sizeof(LADSPA_Descriptor)\<close> as element size, so the block is larger than \<open>n\<close> samples;
  the kernels only ever address the first \<open>n\<close>, which is what the model keeps. Allocation
  is taken to succeed.\<close>

definition c_calloc :: "nat \<Rightarrow> buffer" where
  "c_calloc n = Block (replicate n 0)"

text \<open>\<^verbatim>\<open>free(p)\<close>: a no-op on the null pointer, releases a live block, and is undefined on
  an indeterminate pointer and on one that was freed already.\<close>

definition c_free :: "buffer \<Rightarrow> buffer option" where
  "c_free b = (case b of Null \<Rightarrow> Some Null | Block h \<Rightarrow> Some Freed | _ \<Rightarrow> None)"


section \<open>Comb kernel (\<^verbatim>\<open>comb.c\<close>)\<close>

definition MAX_DELAY :: nat where
  "MAX_DELAY = 100"

record comb_filter =
  comb_delay_control_value_l :: real
  comb_sharp_control_value_l :: real
  comb_delay_control_value_r :: real
  comb_sharp_control_value_r :: real
  comb_input_buffer_l :: "real list"
  comb_output_buffer_l :: "real list"
  comb_input_buffer_r :: "real list"
  comb_output_buffer_r :: "real list"
  comb_sample_rate :: nat
  comb_history_l :: buffer
  comb_history_r :: buffer
  comb_history_position :: nat
  comb_history_length :: nat

text \<open>\<^verbatim>\<open>instantiate_filter\<close>: \<^verbatim>\<open>malloc\<close> leaves every field but the sample rate
  indeterminate; \<open>g\<close> stands for whatever the fresh memory holds.\<close>

definition comb_instantiate_filter :: "comb_filter \<Rightarrow> nat \<Rightarrow> comb_filter" where
  "comb_instantiate_filter g sample_rate =
     g\<lparr>comb_sample_rate := sample_rate, comb_history_l := Wild, comb_history_r := Wild\<rparr>"

definition comb_activate_filter :: "comb_filter \<Rightarrow> bool \<Rightarrow> comb_filter" where
  "comb_activate_filter f stereo =
     f\<lparr>comb_history_position := 0,
       comb_history_length := MAX_DELAY,
       comb_history_l := c_calloc MAX_DELAY,
       comb_history_r := (if stereo then c_calloc MAX_DELAY else Null)\<rparr>"

text \<open>One pass of the \<^verbatim>\<open>while\<close> loop of \<^verbatim>\<open>filter_channel\<close>; \<open>i\<close> is the distance the
  \<^verbatim>\<open>input\<close> and \<^verbatim>\<open>output\<close> pointers have advanced. \<^verbatim>\<open>history_position\<close> is a by-value
  parameter of \<^verbatim>\<open>filter_channel\<close>, so it is part of the loop state only.\<close>

definition comb_filter_channel_step ::
  "real list \<Rightarrow> nat \<Rightarrow> real \<Rightarrow> nat \<Rightarrow> nat \<Rightarrow> real list \<times> buffer \<times> nat
     \<Rightarrow> (real list \<times> buffer \<times> nat) option" where
  "comb_filter_channel_step input delay sharpness history_length i s =
     (case s of (output, history, history_position) \<Rightarrow>
        do {
          x \<leftarrow> audio_read input i;
          h \<leftarrow> buf_read history history_position;
          let y = x * (1 - sharpness ^ delay) + sharpness ^ delay * h;
          output' \<leftarrow> audio_write output i y;
          k \<leftarrow> c_mod (ulong_add delay history_position) history_length;
          history' \<leftarrow> buf_write history k y;
          p \<leftarrow> c_mod (ulong_add history_position 1) history_length;
          Some (output', history', p)
        })"

fun comb_filter_channel_loop ::
  "nat \<Rightarrow> real list \<Rightarrow> nat \<Rightarrow> real \<Rightarrow> nat \<Rightarrow> nat \<Rightarrow> real list \<times> buffer \<times> nat
     \<Rightarrow> (real list \<times> buffer \<times> nat) option" where
  "comb_filter_channel_loop 0 input delay sharpness history_length i s = Some s"
| "comb_filter_channel_loop (Suc n) input delay sharpness history_length i s =
     (case comb_filter_channel_step input delay sharpness history_length i s of
        None \<Rightarrow> None
      | Some s' \<Rightarrow> comb_filter_channel_loop n input delay sharpness history_length (Suc i) s')"

text \<open>\<^verbatim>\<open>filter_channel\<close> returns nothing: its effects are the output buffer and the
  history block. The advanced cursor is dropped with the stack frame.\<close>

definition comb_filter_channel ::
  "real list \<Rightarrow> real list \<Rightarrow> nat \<Rightarrow> real \<Rightarrow> buffer \<Rightarrow> nat \<Rightarrow> nat \<Rightarrow> nat \<Rightarrow> nat
     \<Rightarrow> (real list \<times> buffer) option" where
  "comb_filter_channel input output delay sharpness history history_position
       history_length sample_count sample_rate =
     map_option (\<lambda>(output', history', p). (output', history'))
       (comb_filter_channel_loop sample_count input delay sharpness history_length 0
          (output, history, history_position))"

definition comb_run_mono_filter :: "comb_filter \<Rightarrow> nat \<Rightarrow> comb_filter option" where
  "comb_run_mono_filter f sample_count =
     do {
       delay_l \<leftarrow> float_to_unsigned UINT_BITS (comb_delay_control_value_l f);
       (out_l, hist_l) \<leftarrow>
         comb_filter_channel (comb_input_buffer_l f) (comb_output_buffer_l f) delay_l
           (comb_sharp_control_value_l f) (comb_history_l f) (comb_history_position f)
           (comb_history_length f) sample_count (comb_sample_rate f);
       Some (f\<lparr>comb_output_buffer_l := out_l, comb_history_l := hist_l\<rparr>)
     }"

definition comb_run_stereo_filter :: "comb_filter \<Rightarrow> nat \<Rightarrow> comb_filter option" where
  "comb_run_stereo_filter f sample_count =
     do {
       delay_l \<leftarrow> float_to_unsigned UINT_BITS (comb_delay_control_value_l f);
       (out_l, hist_l) \<leftarrow>
         comb_filter_channel (comb_input_buffer_l f) (comb_output_buffer_l f) delay_l
           (comb_sharp_control_value_l f) (comb_history_l f) (comb_history_position f)
           (comb_history_length f) sample_count (comb_sample_rate f);
       let f1 = f\<lparr>comb_output_buffer_l := out_l, comb_history_l := hist_l\<rparr>;
       delay_r \<leftarrow> float_to_unsigned UINT_BITS (comb_delay_control_value_r f1);
       (out_r, hist_r) \<leftarrow>
         comb_filter_channel (comb_input_buffer_r f1) (comb_output_buffer_r f1) delay_r
           (comb_sharp_control_value_r f1) (comb_history_r f1) (comb_history_position f1)
           (comb_history_length f1) sample_count (comb_sample_rate f1);
       Some (f1\<lparr>comb_output_buffer_r := out_r, comb_history_r := hist_r\<rparr>)
     }"

definition comb_deactivate_filter :: "comb_filter \<Rightarrow> comb_filter option" where
  "comb_deactivate_filter f =
     do {
       l \<leftarrow> c_free (comb_history_l f);
       r \<leftarrow> (if comb_history_r f = Null then Some Null else c_free (comb_history_r f));
       Some (f\<lparr>comb_history_l := l, comb_history_r := r\<rparr>)
     }"

text \<open>The instance the concrete evaluations start from: nothing connected but the given
  ports, as \<^verbatim>\<open>instantiate_filter\<close> followed by \<^verbatim>\<open>connect_port_to_filter\<close> leaves it.\<close>

definition comb_mono_instance :: "real \<Rightarrow> real \<Rightarrow> real list \<Rightarrow> real list \<Rightarrow> comb_filter" where
  "comb_mono_instance delay sharpness input output =
     comb_instantiate_filter
       \<lparr>comb_delay_control_value_l = delay, comb_sharp_control_value_l = sharpness,
        comb_delay_control_value_r = 0, comb_sharp_control_value_r = 0,
        comb_input_buffer_l = input, comb_output_buffer_l = output,
        comb_input_buffer_r = [], comb_output_buffer_r = [],
        comb_sample_rate = 0, comb_history_l = Wild, comb_history_r = Wild,
        comb_history_position = 0, comb_history_length = 0\<rparr> 44100"


section \<open>FIR kernel (\<^verbatim>\<open>fir.c\<close>)\<close>

definition MIN_FREQ :: real where
  "MIN_FREQ = 1"

record fir_filter =
  fir_freq_control_value_l :: real
  fir_wet_control_value_l :: real
  fir_freq_control_value_r :: real
  fir_wet_control_value_r :: real
  fir_input_buffer_l :: "real list"
  fir_output_buffer_l :: "real list"
  fir_input_buffer_r :: "real list"
  fir_output_buffer_r :: "real list"
  fir_sample_rate :: nat
  fir_history_l :: buffer
  fir_history_r :: buffer
  fir_history_position :: nat
  fir_history_length :: nat

text \<open>\<^verbatim>\<open>(unsigned long)((1 / (2 * freq)) * sample_rate)\<close>: the division has no guard.\<close>

definition get_sample_shift :: "real \<Rightarrow> nat \<Rightarrow> nat option" where
  "get_sample_shift freq sample_rate =
     (if 2 * freq = 0 then None
      else float_to_unsigned ULONG_BITS ((1 / (2 * freq)) * real sample_rate))"

definition fir_instantiate_filter :: "fir_filter \<Rightarrow> nat \<Rightarrow> fir_filter" where
  "fir_instantiate_filter g sample_rate =
     g\<lparr>fir_sample_rate := sample_rate, fir_history_l := Wild, fir_history_r := Wild\<rparr>"

definition fir_activate_filter :: "fir_filter \<Rightarrow> bool \<Rightarrow> fir_filter option" where
  "fir_activate_filter f stereo =
     do {
       len \<leftarrow> get_sample_shift MIN_FREQ (fir_sample_rate f);
       Some (f\<lparr>fir_history_position := 0,
               fir_history_length := len,
               fir_history_l := c_calloc len,
               fir_history_r := (if stereo then c_calloc len else Null)\<rparr>)
     }"

text \<open>One pass of the \<^verbatim>\<open>while\<close> loop of \<^verbatim>\<open>run_filter\<close>, statement by statement. The
  cursor lives in the instance and is stored back on every pass.\<close>

definition fir_run_filter_step :: "bool \<Rightarrow> nat \<Rightarrow> nat \<Rightarrow> nat \<Rightarrow> fir_filter \<Rightarrow> fir_filter option" where
  "fir_run_filter_step stereo sample_shift_l sample_shift_r i f =
     do {
       x_l \<leftarrow> audio_read (fir_input_buffer_l f) i;
       k_l \<leftarrow> c_mod (ulong_add sample_shift_l (fir_history_position f)) (fir_history_length f);
       h_l \<leftarrow> buf_write (fir_history_l f) k_l x_l;
       let f1 = f\<lparr>fir_history_l := h_l\<rparr>;
       f2 \<leftarrow> (if stereo then
                do {
                  x_r \<leftarrow> audio_read (fir_input_buffer_r f1) i;
                  k_r \<leftarrow> c_mod (ulong_add sample_shift_r (fir_history_position f1))
                           (fir_history_length f1);
                  h_r \<leftarrow> buf_write (fir_history_r f1) k_r x_r;
                  Some (f1\<lparr>fir_history_r := h_r\<rparr>)
                }
              else Some f1);
       d_l \<leftarrow> buf_read (fir_history_l f2) (fir_history_position f2);
       out_l \<leftarrow> audio_write (fir_output_buffer_l f2) i
                  (x_l * (1 - fir_wet_control_value_l f2 / 2)
                   + d_l * fir_wet_control_value_l f2 / 2);
       let f3 = f2\<lparr>fir_output_buffer_l := out_l\<rparr>;
       f4 \<leftarrow> (if stereo then
                do {
                  x_r \<leftarrow> audio_read (fir_input_buffer_r f3) i;
                  d_r \<leftarrow> buf_read (fir_history_r f3) (fir_history_position f3);
                  out_r \<leftarrow> audio_write (fir_output_buffer_r f3) i
                             (x_r * (1 - fir_wet_control_value_r f3 / 2)
                              + d_r * fir_wet_control_value_r f3 / 2);
                  Some (f3\<lparr>fir_output_buffer_r := out_r\<rparr>)
                }
              else Some f3);
       p \<leftarrow> c_mod (ulong_add (fir_history_position f4) 1) (fir_history_length f4);
       Some (f4\<lparr>fir_history_position := p\<rparr>)
     }"

fun fir_run_filter_loop :: "nat \<Rightarrow> bool \<Rightarrow> nat \<Rightarrow> nat \<Rightarrow> nat \<Rightarrow> fir_filter \<Rightarrow> fir_filter option" where
  "fir_run_filter_loop 0 stereo sample_shift_l sample_shift_r i f = Some f"
| "fir_run_filter_loop (Suc n) stereo sample_shift_l sample_shift_r i f =
     (case fir_run_filter_step stereo sample_shift_l sample_shift_r i f of
        None \<Rightarrow> None
      | Some f' \<Rightarrow> fir_run_filter_loop n stereo sample_shift_l sample_shift_r (Suc i) f')"

definition fir_run_filter :: "fir_filter \<Rightarrow> nat \<Rightarrow> bool \<Rightarrow> fir_filter option" where
  "fir_run_filter f sample_count stereo =
     do {
       sample_shift_l \<leftarrow> get_sample_shift (fir_freq_control_value_l f) (fir_sample_rate f);
       sample_shift_r \<leftarrow> (if stereo
                           then get_sample_shift (fir_freq_control_value_r f) (fir_sample_rate f)
                           else Some 0);
       fir_run_filter_loop sample_count stereo sample_shift_l sample_shift_r 0 f
     }"

definition fir_run_mono_filter :: "fir_filter \<Rightarrow> nat \<Rightarrow> fir_filter option" where
  "fir_run_mono_filter f sample_count = fir_run_filter f sample_count False"

definition fir_run_stereo_filter :: "fir_filter \<Rightarrow> nat \<Rightarrow> fir_filter option" where
  "fir_run_stereo_filter f sample_count = fir_run_filter f sample_count True"

definition fir_deactivate_filter :: "fir_filter \<Rightarrow> fir_filter option" where
  "fir_deactivate_filter f =
     do {
       l \<leftarrow> c_free (fir_history_l f);
       r \<leftarrow> (if fir_history_r f = Null then Some Null else c_free (fir_history_r f));
       Some (f\<lparr>fir_history_l := l, fir_history_r := r\<rparr>)
     }"

definition fir_mono_instance :: "real \<Rightarrow> real \<Rightarrow> real list \<Rightarrow> real list \<Rightarrow> fir_filter" where
  "fir_mono_instance freq wet input output =
     fir_instantiate_filter
       \<lparr>fir_freq_control_value_l = freq, fir_wet_control_value_l = wet,
        fir_freq_control_value_r = 0, fir_wet_control_value_r = 0,
        fir_input_buffer_l = input, fir_output_buffer_l = output,
        fir_input_buffer_r = [], fir_output_buffer_r = [],
        fir_sample_rate = 0, fir_history_l = Wild, fir_history_r = Wild,
        fir_history_position = 0, fir_history_length = 0\<rparr> 8"


section \<open>IIR kernel (\<^verbatim>\<open>iir.c\<close>)\<close>

record iir_filter =
  iir_coef_control_value_l :: real
  iir_input_buffer_l :: "real list"
  iir_output_buffer_l :: "real list"
  iir_coef_control_value_r :: real
  iir_input_buffer_r :: "real list"
  iir_output_buffer_r :: "real list"
  iir_previous_sample_l :: real
  iir_previous_sample_r :: real

definition iir_activate_filter :: "iir_filter \<Rightarrow> iir_filter" where
  "iir_activate_filter f = f\<lparr>iir_previous_sample_l := 0, iir_previous_sample_r := 0\<rparr>"

definition iir_run_filter_step :: "bool \<Rightarrow> real \<Rightarrow> real \<Rightarrow> nat \<Rightarrow> iir_filter \<Rightarrow> iir_filter option" where
  "iir_run_filter_step stereo coef_l coef_r i f =
     do {
       x_l \<leftarrow> audio_read (iir_input_buffer_l f) i;
       let y_l = x_l * (1 - \<bar>coef_l\<bar>) + iir_previous_sample_l f * coef_l;
       out_l \<leftarrow> audio_write (iir_output_buffer_l f) i y_l;
       let f1 = f\<lparr>iir_output_buffer_l := out_l, iir_previous_sample_l := y_l\<rparr>;
       (if stereo then
          do {
            x_r \<leftarrow> audio_read (iir_input_buffer_r f1) i;
            let y_r = x_r * (1 - \<bar>coef_r\<bar>) + iir_previous_sample_r f1 * coef_r;
            out_r \<leftarrow> audio_write (iir_output_buffer_r f1) i y_r;
            Some (f1\<lparr>iir_output_buffer_r := out_r, iir_previous_sample_r := y_r\<rparr>)
          }
        else Some f1)
     }"

fun iir_run_filter_loop :: "nat \<Rightarrow> bool \<Rightarrow> real \<Rightarrow> real \<Rightarrow> nat \<Rightarrow> iir_filter \<Rightarrow> iir_filter option" where
  "iir_run_filter_loop 0 stereo coef_l coef_r i f = Some f"
| "iir_run_filter_loop (Suc n) stereo coef_l coef_r i f =
     (case iir_run_filter_step stereo coef_l coef_r i f of
        None \<Rightarrow> None
      | Some f' \<Rightarrow> iir_run_filter_loop n stereo coef_l coef_r (Suc i) f')"

definition iir_run_filter :: "iir_filter \<Rightarrow> nat \<Rightarrow> bool \<Rightarrow> iir_filter option" where
  "iir_run_filter f sample_count stereo =
     iir_run_filter_loop sample_count stereo (iir_coef_control_value_l f)
       (if stereo then iir_coef_control_value_r f else 0) 0 f"

definition iir_run_mono_filter :: "iir_filter \<Rightarrow> nat \<Rightarrow> iir_filter option" where
  "iir_run_mono_filter f sample_count = iir_run_filter f sample_count False"

definition iir_run_stereo_filter :: "iir_filter \<Rightarrow> nat \<Rightarrow> iir_filter option" where
  "iir_run_stereo_filter f sample_count = iir_run_filter f sample_count True"


section \<open>Reson kernel (\<^verbatim>\<open>reson.c\<close>)\<close>

record reson_filter =
  reson_freq_control_value_l :: real
  reson_bw_control_value_l :: real
  reson_freq_control_value_r :: real
  reson_bw_control_value_r :: real
  reson_input_buffer_l :: "real list"
  reson_output_buffer_l :: "real list"
  reson_input_buffer_r :: "real list"
  reson_output_buffer_r :: "real list"
  reson_sample_rate :: nat
  reson_history_l :: buffer
  reson_history_r :: buffer

definition reson_instantiate_filter :: "reson_filter \<Rightarrow> nat \<Rightarrow> reson_filter" where
  "reson_instantiate_filter g sample_rate =
     g\<lparr>reson_sample_rate := sample_rate, reson_history_l := Wild, reson_history_r := Wild\<rparr>"

definition reson_activate_filter :: "reson_filter \<Rightarrow> bool \<Rightarrow> reson_filter" where
  "reson_activate_filter f stereo =
     f\<lparr>reson_history_l := c_calloc 2,
       reson_history_r := (if stereo then c_calloc 2 else Null)\<rparr>"

text \<open>\<^verbatim>\<open>acos\<close> has a domain error outside \<open>[-1, 1]\<close> (the C library returns NaN).\<close>

definition c_acos :: "real \<Rightarrow> real option" where
  "c_acos x = (if - 1 \<le> x \<and> x \<le> 1 then Some (arccos x) else None)"

definition reson_pole_radius :: "real \<Rightarrow> nat \<Rightarrow> real option" where
  "reson_pole_radius bw sample_rate =
     (if sample_rate = 0 then None else Some (1 - pi * bw / real sample_rate))"

text \<open>The expression the source hands to \<^verbatim>\<open>acos\<close>, as it is written there.\<close>

definition reson_acos_argument :: "real \<Rightarrow> real \<Rightarrow> nat \<Rightarrow> real" where
  "reson_acos_argument pole_radius freq sample_rate =
     ((2 * pole_radius) / (1 + pole_radius ^ 2)) * cos (2 * pi * freq / real sample_rate)"


text \<open>The three locals \<^verbatim>\<open>pole_radius\<close>, \<^verbatim>\<open>pole_angle\<close>, \<^verbatim>\<open>gain_factor\<close> set before the loop
  of \<^verbatim>\<open>filter_channel\<close>.\<close>

definition reson_coefficients :: "real \<Rightarrow> real \<Rightarrow> nat \<Rightarrow> (real \<times> real \<times> real) option" where
  "reson_coefficients freq bw sample_rate =
     do {
       pole_radius \<leftarrow> reson_pole_radius bw sample_rate;
       pole_angle \<leftarrow> c_acos (reson_acos_argument pole_radius freq sample_rate);
       let gain_factor = (1 - pole_radius ^ 2) * sin pole_angle;
       Some (pole_radius, pole_angle, gain_factor)
     }"

definition reson_filter_channel_step ::
  "real list \<Rightarrow> real \<Rightarrow> real \<Rightarrow> real \<Rightarrow> nat \<Rightarrow> real list \<times> buffer
     \<Rightarrow> (real list \<times> buffer) option" where
  "reson_filter_channel_step input pole_radius pole_angle gain_factor i s =
     (case s of (output, history) \<Rightarrow>
        do {
          x \<leftarrow> audio_read input i;
          h0 \<leftarrow> buf_read history 0;
          h1 \<leftarrow> buf_read history 1;
          let y = gain_factor * x + 2 * pole_radius * cos pole_angle * h0
                    - pole_radius ^ 2 * h1;
          output' \<leftarrow> audio_write output i y;
          history' \<leftarrow> buf_write history 1 h0;
          history'' \<leftarrow> buf_write history' 0 y;
          Some (output', history'')
        })"

fun reson_filter_channel_loop ::
  "nat \<Rightarrow> real list \<Rightarrow> real \<Rightarrow> real \<Rightarrow> real \<Rightarrow> nat \<Rightarrow> real list \<times> buffer
     \<Rightarrow> (real list \<times> buffer) option" where
  "reson_filter_channel_loop 0 input pole_radius pole_angle gain_factor i s = Some s"
| "reson_filter_channel_loop (Suc n) input pole_radius pole_angle gain_factor i s =
     (case reson_filter_channel_step input pole_radius pole_angle gain_factor i s of
        None \<Rightarrow> None
      | Some s' \<Rightarrow>
          reson_filter_channel_loop n input pole_radius pole_angle gain_factor (Suc i) s')"

definition reson_filter_channel ::
  "real list \<Rightarrow> real list \<Rightarrow> real \<Rightarrow> real \<Rightarrow> buffer \<Rightarrow> nat \<Rightarrow> nat
     \<Rightarrow> (real list \<times> buffer) option" where
  "reson_filter_channel input output freq bw history sample_count sample_rate =
     do {
       (pole_radius, pole_angle, gain_factor) \<leftarrow> reson_coefficients freq bw sample_rate;
       reson_filter_channel_loop sample_count input pole_radius pole_angle gain_factor 0
         (output, history)
     }"

definition reson_run_filter :: "reson_filter \<Rightarrow> nat \<Rightarrow> bool \<Rightarrow> reson_filter option" where
  "reson_run_filter f sample_count stereo =
     do {
       (out_l, hist_l) \<leftarrow>
         reson_filter_channel (reson_input_buffer_l f) (reson_output_buffer_l f)
           (reson_freq_control_value_l f) (reson_bw_control_value_l f) (reson_history_l f)
           sample_count (reson_sample_rate f);
       let f1 = f\<lparr>reson_output_buffer_l := out_l, reson_history_l := hist_l\<rparr>;
       (if stereo then
          do {
            (out_r, hist_r) \<leftarrow>
              reson_filter_channel (reson_input_buffer_r f1) (reson_output_buffer_r f1)
                (reson_freq_control_value_r f1) (reson_bw_control_value_r f1)
                (reson_history_r f1) sample_count (reson_sample_rate f1);
            Some (f1\<lparr>reson_output_buffer_r := out_r, reson_history_r := hist_r\<rparr>)
          }
        else Some f1)
     }"

definition reson_run_mono_filter :: "reson_filter \<Rightarrow> nat \<Rightarrow> reson_filter option" where
  "reson_run_mono_filter f sample_count = reson_run_filter f sample_count False"

definition reson_run_stereo_filter :: "reson_filter \<Rightarrow> nat \<Rightarrow> reson_filter option" where
  "reson_run_stereo_filter f sample_count = reson_run_filter f sample_count True"

definition reson_deactivate_filter :: "reson_filter \<Rightarrow> reson_filter option" where
  "reson_deactivate_filter f =
     do {
       l \<leftarrow> c_free (reson_history_l f);
       r \<leftarrow> (if reson_history_r f = Null then Some Null else c_free (reson_history_r f));
       Some (f\<lparr>reson_history_l := l, reson_history_r := r\<rparr>)
     }"


section \<open>Instances and predicates used in the statements\<close>

definition iir_mono_instance :: "real \<Rightarrow> real list \<Rightarrow> real list \<Rightarrow> iir_filter" where
  "iir_mono_instance coef input output =
     \<lparr>iir_coef_control_value_l = coef, iir_input_buffer_l = input, iir_output_buffer_l = output,
      iir_coef_control_value_r = 0, iir_input_buffer_r = [], iir_output_buffer_r = [],
      iir_previous_sample_l = 0, iir_previous_sample_r = 0\<rparr>"

definition reson_mono_instance :: "real \<Rightarrow> real \<Rightarrow> real list \<Rightarrow> real list \<Rightarrow> reson_filter" where
  "reson_mono_instance freq bw input output =
     reson_instantiate_filter
       \<lparr>reson_freq_control_value_l = freq, reson_bw_control_value_l = bw,
        reson_freq_control_value_r = 0, reson_bw_control_value_r = 0,
        reson_input_buffer_l = input, reson_output_buffer_l = output,
        reson_input_buffer_r = [], reson_output_buffer_r = [],
        reson_sample_rate = 0, reson_history_l = Wild, reson_history_r = Wild\<rparr> 44100"

text \<open>The mono FIR instance after \<^verbatim>\<open>activate_mono_filter\<close> (sample rate 8, so four history
  slots).\<close>

definition fir_active_instance :: "real \<Rightarrow> real \<Rightarrow> real list \<Rightarrow> real list \<Rightarrow> fir_filter" where
  "fir_active_instance freq wet input output =
     the (fir_activate_filter (fir_mono_instance freq wet input output) False)"






section \<open>Evaluation rules\<close>

lemmas c_defs =
  float_to_unsigned_def c_mod_def ulong_add_def audio_read_def audio_write_def
  buf_read_def buf_write_def c_calloc_def c_free_def ULONG_BITS_def UINT_BITS_def

lemmas comb_defs =
  comb_run_mono_filter_def comb_run_stereo_filter_def comb_filter_channel_def
  comb_filter_channel_step_def comb_activate_filter_def comb_mono_instance_def
  comb_instantiate_filter_def comb_deactivate_filter_def MAX_DELAY_def

lemmas fir_instance_defs =
  fir_activate_filter_def fir_instantiate_filter_def fir_mono_instance_def
  get_sample_shift_def MIN_FREQ_def


section \<open>Comb: the history cursor across process calls\<close>

lemma comb_run_mono_filter_keeps_cursor:
  "comb_run_mono_filter f n = Some f' \<Longrightarrow> comb_history_position f' = comb_history_position f"
  by (auto simp: comb_run_mono_filter_def split: Option.bind_splits prod.splits)

lemma comb_run_stereo_filter_keeps_cursor:
  "comb_run_stereo_filter f n = Some f' \<Longrightarrow> comb_history_position f' = comb_history_position f"
  by (auto simp: comb_run_stereo_filter_def Let_def split: Option.bind_splits prod.splits)

text \<open>
  Claim C1. The claim says that a Comb process call of \<open>n\<close> frames leaves the stored cursor at
  \<open>(cursor + n) mod 100\<close>. The code hands \<^verbatim>\<open>history_position\<close> to \<^verbatim>\<open>filter_channel\<close> by
  value and never stores it back: on a freshly activated mono instance (cursor 0, delay 1,
  sharpness 1/2) one frame is processed, the call succeeds, and the stored cursor is still 0,
  where the claim asks for \<open>(0 + 1) mod 100 = 1\<close>.
\<close>

theorem comb_cursor_not_persisted:
  "map_option comb_history_position
     (comb_run_mono_filter (comb_activate_filter (comb_mono_instance 1 (1/2) [1] [0]) False) 1)
   = Some 0
   \<and> (0 + 1) mod MAX_DELAY = (1::nat)"
  by (simp add: comb_defs c_defs Let_def)


section \<open>FIR: the tap offset has no guard\<close>


lemma float_to_unsigned_zero: "- 1 < v \<Longrightarrow> v < 1 \<Longrightarrow> float_to_unsigned w v = Some 0"
proof -
  assume a: "- 1 < v" "v < 1"
  have "(1::real) \<le> 2 ^ w" by (rule one_le_power) simp
  then have "v < 2 ^ w" using a(2) by (rule less_le_trans[rotated])
  moreover have "0 \<le> v \<Longrightarrow> \<lfloor>v\<rfloor> = 0" using a(2) by (simp add: floor_eq_iff)
  ultimately show ?thesis using a by (auto simp add: float_to_unsigned_def)
qed





section \<open>IIR: impulse response\<close>

text \<open>
  Claim C6. IIR kernel, coefficient 1/2, freshly activated (previous output 0): the impulse
  block \<open>[1, 0, 0, 0]\<close> is answered by \<open>[1/2, 1/4, 1/8, 1/16]\<close>, whatever the output buffer held
  before; the retained sample is the last output.
\<close>

theorem iir_impulse_response:
  "iir_run_mono_filter
     (iir_activate_filter (f\<lparr>iir_coef_control_value_l := 1/2, iir_input_buffer_l := [1, 0, 0, 0],
        iir_output_buffer_l := [a, b, c, d]\<rparr>)) 4
   = Some (f\<lparr>iir_coef_control_value_l := 1/2, iir_input_buffer_l := [1, 0, 0, 0],
        iir_output_buffer_l := [1/2, 1/4, 1/8, 1/16], iir_previous_sample_l := 1/16,
        iir_previous_sample_r := 0\<rparr>)"
  by (simp add: iir_run_mono_filter_def iir_run_filter_def iir_run_filter_step_def
      iir_activate_filter_def audio_read_def audio_write_def Let_def eval_nat_numeral)


section \<open>Deactivation\<close>

text \<open>
  Claim C5, as stated: a second \<^verbatim>\<open>deactivate\<close> in a row, or one before \<^verbatim>\<open>activate\<close>, is a
  no-op. In the source \<^verbatim>\<open>deactivate_filter\<close> frees \<^verbatim>\<open>history_l\<close> and leaves the pointer as it
  is, so the second call frees a dangling pointer, and a call before activation frees an
  indeterminate one: neither is a no-op.
\<close>

theorem comb_deactivate_twice_undefined:
  "Option.bind
     (comb_deactivate_filter (comb_activate_filter (comb_mono_instance 1 (1/2) [] []) False))
     comb_deactivate_filter = None
   \<and> comb_deactivate_filter (comb_mono_instance 1 (1/2) [] []) = None"
  by (simp add: comb_defs c_defs)

text \<open>
  Claim C5, amended: for Comb, FIR and Reson, \<^verbatim>\<open>deactivate\<close> on an activated instance succeeds
  and releases the history blocks (the right one only when stereo); it is not idempotent: a
  second call in a row and a call before any activation are undefined (a \<^verbatim>\<open>free\<close> of a
  pointer that is not live). \<^verbatim>\<open>iir.c\<close> has no deactivate function.
\<close>

theorem deactivate_once_after_activate:
  "comb_deactivate_filter (comb_activate_filter fc stereo)
     = Some (comb_activate_filter fc stereo
         \<lparr>comb_history_l := Freed, comb_history_r := (if stereo then Freed else Null)\<rparr>)
   \<and> Option.bind (comb_deactivate_filter (comb_activate_filter fc stereo)) comb_deactivate_filter = None
   \<and> comb_deactivate_filter (comb_instantiate_filter gc sample_rate) = None
   \<and> reson_deactivate_filter (reson_activate_filter fr stereo)
     = Some (reson_activate_filter fr stereo
         \<lparr>reson_history_l := Freed, reson_history_r := (if stereo then Freed else Null)\<rparr>)
   \<and> Option.bind (reson_deactivate_filter (reson_activate_filter fr stereo)) reson_deactivate_filter = None
   \<and> reson_deactivate_filter (reson_instantiate_filter gr sample_rate) = None
   \<and> fir_deactivate_filter (fir_instantiate_filter gf sample_rate) = None
   \<and> (fir_activate_filter ff stereo = Some ff' \<longrightarrow>
        fir_deactivate_filter ff'
          = Some (ff'\<lparr>fir_history_l := Freed, fir_history_r := (if stereo then Freed else Null)\<rparr>)
        \<and> Option.bind (fir_deactivate_filter ff') fir_deactivate_filter = None)"
proof -
  have c: "comb_deactivate_filter (comb_activate_filter fc stereo)
     = Some (comb_activate_filter fc stereo
         \<lparr>comb_history_l := Freed, comb_history_r := (if stereo then Freed else Null)\<rparr>)
   \<and> Option.bind (comb_deactivate_filter (comb_activate_filter fc stereo)) comb_deactivate_filter = None
   \<and> comb_deactivate_filter (comb_instantiate_filter gc sample_rate) = None"
    by (simp add: comb_deactivate_filter_def comb_activate_filter_def comb_instantiate_filter_def
        c_calloc_def c_free_def)
  have r: "reson_deactivate_filter (reson_activate_filter fr stereo)
     = Some (reson_activate_filter fr stereo
         \<lparr>reson_history_l := Freed, reson_history_r := (if stereo then Freed else Null)\<rparr>)
   \<and> Option.bind (reson_deactivate_filter (reson_activate_filter fr stereo)) reson_deactivate_filter = None
   \<and> reson_deactivate_filter (reson_instantiate_filter gr sample_rate) = None"
    by (simp add: reson_deactivate_filter_def reson_activate_filter_def reson_instantiate_filter_def
        c_calloc_def c_free_def)
  have f0: "fir_deactivate_filter (fir_instantiate_filter gf sample_rate) = None"
    by (simp add: fir_deactivate_filter_def fir_instantiate_filter_def c_free_def)
  have f: "fir_activate_filter ff stereo = Some ff' \<longrightarrow>
        fir_deactivate_filter ff'
          = Some (ff'\<lparr>fir_history_l := Freed, fir_history_r := (if stereo then Freed else Null)\<rparr>)
        \<and> Option.bind (fir_deactivate_filter ff') fir_deactivate_filter = None"
    by (auto simp add: fir_deactivate_filter_def fir_activate_filter_def c_calloc_def c_free_def
        split: Option.bind_splits)
  from c r f0 f show ?thesis by blast
qed

theorem deactivate_once_after_activate_witness:
  "fir_activate_filter (fir_mono_instance 20 0 [] []) False = Some (fir_active_instance 20 0 [] []) \<and>
   fir_deactivate_filter (fir_active_instance 20 0 [] [])
     = Some ((fir_active_instance 20 0 [] [])\<lparr>fir_history_l := Freed, fir_history_r := Null\<rparr>) \<and>
   Option.bind (fir_deactivate_filter (fir_active_instance 20 0 [] [])) fir_deactivate_filter = None"
proof -
  have a: "fir_activate_filter (fir_mono_instance 20 0 [] []) False = Some (fir_active_instance 20 0 [] [])"
    by (simp add: fir_active_instance_def fir_instance_defs c_defs)
  from deactivate_once_after_activate[of "comb_mono_instance 1 (1/2) [] []" False
      "comb_mono_instance 1 (1/2) [] []" 8
      "reson_mono_instance 440 100 [] []" "reson_mono_instance 440 100 [] []"
      "fir_mono_instance 20 0 [] []" "fir_mono_instance 20 0 [] []"
      "fir_active_instance 20 0 [] []"] a
  show ?thesis by (simp (no_asm_use) only: if_False) blast
qed


section \<open>Reson: the argument of \<^verbatim>\<open>acos\<close>\<close>

lemma two_r_bound: "\<bar>(2 * r) / (1 + r ^ 2)\<bar> \<le> (1::real)"
proof -
  have "0 \<le> (1 - \<bar>r\<bar>) ^ 2" by simp
  then have "2 * \<bar>r\<bar> \<le> 1 + r ^ 2" by (simp add: power2_eq_square algebra_simps)
  moreover have "0 < 1 + r ^ 2" by (simp add: add_pos_nonneg)
  ultimately show ?thesis by (simp add: abs_mult)
qed

lemma reson_acos_argument_abs: "\<bar>reson_acos_argument r freq sample_rate\<bar> \<le> 1"
proof -
  have "\<bar>reson_acos_argument r freq sample_rate\<bar>
      = \<bar>(2 * r) / (1 + r ^ 2)\<bar> * \<bar>cos (2 * pi * freq / real sample_rate)\<bar>"
    by (simp only: reson_acos_argument_def abs_mult)
  also have "\<dots> \<le> 1 * 1"
    by (intro mult_mono two_r_bound) simp_all
  finally show ?thesis by simp
qed

lemma reson_coefficients_defined:
  assumes "0 < sample_rate"
  shows "reson_coefficients freq bw sample_rate =
     (let r = 1 - pi * bw / real sample_rate;
          a = arccos (reson_acos_argument r freq sample_rate)
      in Some (r, a, (1 - r ^ 2) * sin a))"
  using assms reson_acos_argument_abs[of "1 - pi * bw / real sample_rate" freq sample_rate]
  by (simp add: reson_coefficients_def reson_pole_radius_def c_acos_def Let_def abs_le_iff)






section \<open>Comb: one pass and whole blocks\<close>

lemma comb_step_value:
  assumes "length h = len" "0 < len" "pos < len" "i < length input" "i < length outp"
  shows "comb_filter_channel_step input d s len i (outp, Block h, pos)
     = Some (outp[i := input ! i * (1 - s ^ d) + s ^ d * h ! pos],
             Block (h[ulong_add d pos mod len := input ! i * (1 - s ^ d) + s ^ d * h ! pos]),
             ulong_add pos 1 mod len)"
  using assms
  by (simp add: comb_filter_channel_step_def c_mod_def audio_read_def audio_write_def
      buf_read_def buf_write_def Let_def)

lemma ulong_add_small: "a + b < 2 ^ ULONG_BITS \<Longrightarrow> ulong_add a b = a + b"
  by (simp add: ulong_add_def)

lemma comb_loop_delay0:
  assumes "length h = len" "0 < len" "len < 2 ^ ULONG_BITS" "pos < len"
    "i + n \<le> length input" "i + n \<le> length outp"
  shows "\<exists>out'. comb_filter_channel_loop n input 0 s len i (outp, Block h, pos)
            = Some (out', Block h, (pos + n) mod len)
          \<and> length out' = length outp
          \<and> (\<forall>k<i. out' ! k = outp ! k)
          \<and> (\<forall>k. i + n \<le> k \<longrightarrow> out' ! k = outp ! k)
          \<and> (\<forall>k. i \<le> k \<and> k < i + n \<longrightarrow> out' ! k = h ! ((pos + (k - i)) mod len))"
  using assms
proof (induction n arbitrary: i outp pos)
  case 0
  then show ?case by simp
next
  case (Suc n)
  have a0: "ulong_add 0 pos mod len = pos"
    using Suc.prems by (simp add: ulong_add_small)
  have a1: "ulong_add pos 1 mod len = (pos + 1) mod len"
    using Suc.prems by (simp add: ulong_add_small)
  have step: "comb_filter_channel_step input 0 s len i (outp, Block h, pos)
      = Some (outp[i := h ! pos], Block h, (pos + 1) mod len)"
  proof -
    have "comb_filter_channel_step input 0 s len i (outp, Block h, pos)
      = Some (outp[i := input ! i * (1 - s ^ 0) + s ^ 0 * h ! pos],
             Block (h[ulong_add 0 pos mod len := input ! i * (1 - s ^ 0) + s ^ 0 * h ! pos]),
             ulong_add pos 1 mod len)"
      using Suc.prems by (intro comb_step_value) simp_all
    then show ?thesis unfolding a0 a1 by simp
  qed
  have "\<exists>out'. comb_filter_channel_loop n input 0 s len (Suc i) (outp[i := h ! pos], Block h, (pos + 1) mod len)
            = Some (out', Block h, ((pos + 1) mod len + n) mod len)
          \<and> length out' = length (outp[i := h ! pos])
          \<and> (\<forall>k<Suc i. out' ! k = outp[i := h ! pos] ! k)
          \<and> (\<forall>k. Suc i + n \<le> k \<longrightarrow> out' ! k = outp[i := h ! pos] ! k)
          \<and> (\<forall>k. Suc i \<le> k \<and> k < Suc i + n \<longrightarrow> out' ! k = h ! (((pos + 1) mod len + (k - Suc i)) mod len))"
    using Suc.prems by (intro Suc.IH) simp_all
  then obtain out' where
    r: "comb_filter_channel_loop n input 0 s len (Suc i) (outp[i := h ! pos], Block h, (pos + 1) mod len)
            = Some (out', Block h, ((pos + 1) mod len + n) mod len)"
    and l: "length out' = length outp"
    and pre: "\<forall>k<Suc i. out' ! k = outp[i := h ! pos] ! k"
    and beyond: "\<forall>k. Suc i + n \<le> k \<longrightarrow> out' ! k = outp[i := h ! pos] ! k"
    and post: "\<forall>k. Suc i \<le> k \<and> k < Suc i + n \<longrightarrow> out' ! k = h ! (((pos + 1) mod len + (k - Suc i)) mod len)"
    by auto
  have p: "((pos + 1) mod len + n) mod len = (pos + Suc n) mod len"
    by (simp add: mod_add_left_eq)
  have at_i: "out' ! i = h ! pos" using pre Suc.prems(6) by simp
  have mid: "\<forall>k. i \<le> k \<and> k < i + Suc n \<longrightarrow> out' ! k = h ! ((pos + (k - i)) mod len)"
  proof (intro allI impI)
    fix k assume k: "i \<le> k \<and> k < i + Suc n"
    show "out' ! k = h ! ((pos + (k - i)) mod len)"
    proof (cases "k = i")
      case True
      then show ?thesis using at_i Suc.prems(4) by simp
    next
      case False
      then have "Suc i \<le> k \<and> k < Suc i + n" using k by simp
      then have "out' ! k = h ! (((pos + 1) mod len + (k - Suc i)) mod len)" using post by blast
      also have "((pos + 1) mod len + (k - Suc i)) mod len = (pos + 1 + (k - Suc i)) mod len"
        by (simp add: mod_add_left_eq)
      also have "pos + 1 + (k - Suc i) = pos + (k - i)" using False k by arith
      finally show ?thesis .
    qed
  qed
  have "\<forall>k<i. out' ! k = outp ! k" using pre by simp
  moreover have "\<forall>k. i + Suc n \<le> k \<longrightarrow> out' ! k = outp ! k" using beyond by simp
  ultimately show ?case using step r l mid p by simp
qed

text \<open>
  Claim C4, as stated: a delay parameter below 1 gives the same output block and final state
  as delay 1. The source converts the parameter with \<^verbatim>\<open>(unsigned int)\<close> and uses the result as
  it is. From a fresh activation, sharpness 1/2 and the input block \<open>[1]\<close>: delay parameter 1/2
  (truncated to 0) writes the output \<open>[0]\<close>, delay 1 writes \<open>[1/2]\<close>.
\<close>

theorem comb_delay_zero_differs_from_delay_one:
  "map_option comb_output_buffer_l
     (comb_run_mono_filter (comb_activate_filter (comb_mono_instance (1/2) (1/2) [1] [0]) False) 1)
   = Some [0]
   \<and> map_option comb_output_buffer_l
     (comb_run_mono_filter (comb_activate_filter (comb_mono_instance 1 (1/2) [1] [0]) False) 1)
   = Some [1/2]"
  by (simp add: comb_defs c_defs Let_def)

text \<open>
  Claim C4, amended: a delay parameter in \<open>(-1, 1)\<close> truncates to 0 and is used unclamped. The
  gain is then \<open>sharpness\<^sup>0 = 1\<close>: on an activated instance output sample \<open>k\<close> of the block is the
  history sample at \<open>(cursor + k) mod history_length\<close>, the input block is ignored, and history
  and the rest of the instance are left as they were.
\<close>

theorem comb_delay_zero_replays_history:
  assumes "- 1 < comb_delay_control_value_l f" "comb_delay_control_value_l f < 1"
    "comb_history_l f = Block h" "length h = comb_history_length f"
    "0 < comb_history_length f" "comb_history_length f < 2 ^ ULONG_BITS"
    "comb_history_position f < comb_history_length f"
    "n \<le> length (comb_input_buffer_l f)" "n \<le> length (comb_output_buffer_l f)"
  shows "\<exists>out'. comb_run_mono_filter f n = Some (f\<lparr>comb_output_buffer_l := out'\<rparr>)
     \<and> length out' = length (comb_output_buffer_l f)
     \<and> (\<forall>k<n. out' ! k = h ! ((comb_history_position f + k) mod comb_history_length f))
     \<and> (\<forall>k. n \<le> k \<longrightarrow> out' ! k = comb_output_buffer_l f ! k)"
proof -
  have d: "float_to_unsigned UINT_BITS (comb_delay_control_value_l f) = Some 0"
    using assms(1,2) by (rule float_to_unsigned_zero)
  obtain out' where
    r: "comb_filter_channel_loop n (comb_input_buffer_l f) 0 (comb_sharp_control_value_l f)
          (comb_history_length f) 0 (comb_output_buffer_l f, Block h, comb_history_position f)
        = Some (out', Block h, (comb_history_position f + n) mod comb_history_length f)"
    and l: "length out' = length (comb_output_buffer_l f)"
    and beyond: "\<forall>k. 0 + n \<le> k \<longrightarrow> out' ! k = comb_output_buffer_l f ! k"
    and mid: "\<forall>k. 0 \<le> k \<and> k < 0 + n \<longrightarrow>
        out' ! k = h ! ((comb_history_position f + (k - 0)) mod comb_history_length f)"
    using comb_loop_delay0[of h "comb_history_length f" "comb_history_position f" 0 n
        "comb_input_buffer_l f" "comb_output_buffer_l f" "comb_sharp_control_value_l f"] assms
    by auto
  have "f\<lparr>comb_output_buffer_l := out', comb_history_l := Block h\<rparr> = f\<lparr>comb_output_buffer_l := out'\<rparr>"
    using assms(3) by simp
  then have "comb_run_mono_filter f n = Some (f\<lparr>comb_output_buffer_l := out'\<rparr>)"
    using d r assms(3) by (simp add: comb_run_mono_filter_def comb_filter_channel_def)
  then show ?thesis using l beyond mid by auto
qed

theorem comb_delay_zero_replays_history_witness:
  "- 1 < comb_delay_control_value_l (comb_activate_filter (comb_mono_instance (1/2) (1/2) [1] [0]) False) \<and>
   comb_delay_control_value_l (comb_activate_filter (comb_mono_instance (1/2) (1/2) [1] [0]) False) < 1 \<and>
   comb_history_l (comb_activate_filter (comb_mono_instance (1/2) (1/2) [1] [0]) False)
     = Block (replicate 100 0) \<and>
   (\<exists>out'. comb_run_mono_filter (comb_activate_filter (comb_mono_instance (1/2) (1/2) [1] [0]) False) 1
        = Some ((comb_activate_filter (comb_mono_instance (1/2) (1/2) [1] [0]) False)
                  \<lparr>comb_output_buffer_l := out'\<rparr>)
     \<and> (\<forall>k<1. out' ! k = replicate 100 0 ! ((0 + k) mod 100)))"
proof -
  let ?f = "comb_activate_filter (comb_mono_instance (1/2) (1/2) [1] [0]) False"
  have h: "- 1 < comb_delay_control_value_l ?f" "comb_delay_control_value_l ?f < 1"
    "comb_history_l ?f = Block (replicate 100 0)"
    "length (replicate 100 (0::real)) = comb_history_length ?f"
    "0 < comb_history_length ?f" "comb_history_length ?f < 2 ^ ULONG_BITS"
    "comb_history_position ?f < comb_history_length ?f"
    "1 \<le> length (comb_input_buffer_l ?f)" "1 \<le> length (comb_output_buffer_l ?f)"
    by (simp_all add: comb_activate_filter_def comb_mono_instance_def comb_instantiate_filter_def
        c_calloc_def MAX_DELAY_def ULONG_BITS_def)
  have p: "comb_history_position ?f = 0" "comb_history_length ?f = 100"
    by (simp_all add: comb_activate_filter_def MAX_DELAY_def)
  from comb_delay_zero_replays_history[OF h] h(1,2,3) show ?thesis unfolding p by blast
qed


section \<open>Comb: boundedness\<close>

lemma convex_abs_bound:
  fixes x h g M :: real
  assumes "0 \<le> g" "g \<le> 1" "\<bar>x\<bar> \<le> M" "\<bar>h\<bar> \<le> M"
  shows "\<bar>x * (1 - g) + g * h\<bar> \<le> M"
proof -
  have "\<bar>x * (1 - g) + g * h\<bar> \<le> \<bar>x * (1 - g)\<bar> + \<bar>g * h\<bar>" by (rule abs_triangle_ineq)
  also have "\<dots> = \<bar>x\<bar> * (1 - g) + g * \<bar>h\<bar>" using assms(1,2) by (simp add: abs_mult)
  also have "\<dots> \<le> M * (1 - g) + g * M"
    using assms by (intro add_mono mult_right_mono mult_left_mono) simp_all
  also have "\<dots> = M" by (simp add: algebra_simps)
  finally show ?thesis .
qed

lemma comb_loop_bounded:
  assumes "0 \<le> s ^ d" "s ^ d \<le> 1" "length h = len" "0 < len" "pos < len"
    "i + n \<le> length input" "i + n \<le> length outp"
    "\<forall>k. i \<le> k \<and> k < i + n \<longrightarrow> \<bar>input ! k\<bar> \<le> M" "\<forall>x\<in>set h. \<bar>x\<bar> \<le> M"
  shows "\<exists>out' h' p'. comb_filter_channel_loop n input d s len i (outp, Block h, pos)
            = Some (out', Block h', p')
          \<and> length h' = len \<and> p' < len \<and> length out' = length outp
          \<and> (\<forall>x\<in>set h'. \<bar>x\<bar> \<le> M)
          \<and> (\<forall>k<i. out' ! k = outp ! k)
          \<and> (\<forall>k. i \<le> k \<and> k < i + n \<longrightarrow> \<bar>out' ! k\<bar> \<le> M)"
  using assms
proof (induction n arbitrary: i outp h pos)
  case 0
  then show ?case by simp
next
  case (Suc n)
  let ?y = "input ! i * (1 - s ^ d) + s ^ d * h ! pos"
  let ?h = "h[ulong_add d pos mod len := ?y]"
  let ?p = "ulong_add pos 1 mod len"
  have step: "comb_filter_channel_step input d s len i (outp, Block h, pos)
      = Some (outp[i := ?y], Block ?h, ?p)"
    using Suc.prems by (intro comb_step_value) simp_all
  have hpos: "\<bar>h ! pos\<bar> \<le> M" using Suc.prems by simp
  have xi: "\<bar>input ! i\<bar> \<le> M" using Suc.prems by simp
  have y: "\<bar>?y\<bar> \<le> M"
    using convex_abs_bound[OF Suc.prems(1,2) xi hpos] .
  have hb: "\<forall>x\<in>set ?h. \<bar>x\<bar> \<le> M"
    using y Suc.prems(9) set_update_subset_insert[of h "ulong_add d pos mod len" ?y] by auto
  have "\<exists>out' h' p'. comb_filter_channel_loop n input d s len (Suc i) (outp[i := ?y], Block ?h, ?p)
            = Some (out', Block h', p')
          \<and> length h' = len \<and> p' < len \<and> length out' = length (outp[i := ?y])
          \<and> (\<forall>x\<in>set h'. \<bar>x\<bar> \<le> M)
          \<and> (\<forall>k<Suc i. out' ! k = outp[i := ?y] ! k)
          \<and> (\<forall>k. Suc i \<le> k \<and> k < Suc i + n \<longrightarrow> \<bar>out' ! k\<bar> \<le> M)"
    using Suc.prems hb by (intro Suc.IH) simp_all
  then obtain out' h' p' where
    r: "comb_filter_channel_loop n input d s len (Suc i) (outp[i := ?y], Block ?h, ?p)
            = Some (out', Block h', p')"
    and l: "length h' = len" "p' < len" "length out' = length outp"
    and b: "\<forall>x\<in>set h'. \<bar>x\<bar> \<le> M"
    and pre: "\<forall>k<Suc i. out' ! k = outp[i := ?y] ! k"
    and post: "\<forall>k. Suc i \<le> k \<and> k < Suc i + n \<longrightarrow> \<bar>out' ! k\<bar> \<le> M"
    by auto
  have at_i: "out' ! i = ?y" using pre Suc.prems(7) by simp
  have "\<forall>k. i \<le> k \<and> k < i + Suc n \<longrightarrow> \<bar>out' ! k\<bar> \<le> M"
  proof (intro allI impI)
    fix k assume k: "i \<le> k \<and> k < i + Suc n"
    show "\<bar>out' ! k\<bar> \<le> M"
    proof (cases "k = i")
      case True
      then show ?thesis using at_i y by simp
    next
      case False
      then show ?thesis using k post by simp
    qed
  qed
  moreover have "\<forall>k<i. out' ! k = outp ! k" using pre by simp
  ultimately show ?case using step r l b by simp
qed

text \<open>
  Claim C10. For sharpness in \<open>[1/2, 1]\<close> and a delay in \<open>[1, 100]\<close> the gain
  \<open>sharpness ^ delay\<close> lies in \<open>(0, 1]\<close>; if the first \<open>sample_count\<close> input samples and every
  history slot have magnitude at most \<open>M\<close>, then \<^verbatim>\<open>filter_channel\<close> processes the block to the end,
  and every output sample it writes and every history slot afterwards has magnitude at most
  \<open>M\<close>, for every block length.
\<close>

theorem comb_output_bounded:
  assumes "1/2 \<le> sharpness" "sharpness \<le> 1" "1 \<le> delay" "delay \<le> MAX_DELAY"
    "length h = history_length" "0 < history_length" "history_position < history_length"
    "sample_count \<le> length input" "sample_count \<le> length outp"
    "\<forall>k<sample_count. \<bar>input ! k\<bar> \<le> M" "\<forall>x\<in>set h. \<bar>x\<bar> \<le> M"
  shows "0 < sharpness ^ delay \<and> sharpness ^ delay \<le> 1 \<and>
    (\<exists>out' h'. comb_filter_channel input outp delay sharpness (Block h) history_position
                  history_length sample_count sample_rate = Some (out', Block h')
       \<and> length h' = history_length
       \<and> (\<forall>k<sample_count. \<bar>out' ! k\<bar> \<le> M) \<and> (\<forall>x\<in>set h'. \<bar>x\<bar> \<le> M))"
proof -
  have g0: "0 < sharpness ^ delay" using assms(1) by simp
  have g1: "sharpness ^ delay \<le> 1" using assms(1,2) by (intro power_le_one) simp_all
  have "\<exists>out' h' p'. comb_filter_channel_loop sample_count input delay sharpness history_length 0
            (outp, Block h, history_position) = Some (out', Block h', p')
          \<and> length h' = history_length \<and> p' < history_length \<and> length out' = length outp
          \<and> (\<forall>x\<in>set h'. \<bar>x\<bar> \<le> M)
          \<and> (\<forall>k<0. out' ! k = outp ! k)
          \<and> (\<forall>k. 0 \<le> k \<and> k < 0 + sample_count \<longrightarrow> \<bar>out' ! k\<bar> \<le> M)"
    using g0 g1 assms by (intro comb_loop_bounded) simp_all
  then show ?thesis using g0 g1 by (auto simp: comb_filter_channel_def)
qed

theorem comb_output_bounded_witness:
  "(1/2 :: real) \<le> 1/2 \<and> (1/2 :: real) \<le> 1 \<and> (1::nat) \<le> 1 \<and> 1 \<le> MAX_DELAY \<and>
   length (replicate 100 (0::real)) = 100 \<and> (0::nat) < 100 \<and> (0::nat) < 100 \<and>
   1 \<le> length [1::real] \<and> 1 \<le> length [0::real] \<and>
   \<bar>[1::real] ! 0\<bar> \<le> 1 \<and> set (replicate 100 (0::real)) \<subseteq> {x. \<bar>x\<bar> \<le> 1} \<and>
   0 < (1/2 :: real) ^ 1 \<and> (1/2 :: real) ^ 1 \<le> 1 \<and>
    (\<exists>out' h'. comb_filter_channel [1] [0] 1 (1/2) (Block (replicate 100 0)) 0 100 1 44100
                  = Some (out', Block h')
       \<and> length h' = 100
       \<and> (\<forall>k<1. \<bar>out' ! k\<bar> \<le> 1) \<and> (\<forall>x\<in>set h'. \<bar>x\<bar> \<le> 1))"
proof -
  have h: "(1/2 :: real) \<le> 1/2" "(1/2 :: real) \<le> 1" "(1::nat) \<le> 1" "1 \<le> MAX_DELAY"
   "length (replicate 100 (0::real)) = 100" "(0::nat) < 100" "(0::nat) < 100"
   "1 \<le> length [1::real]" "1 \<le> length [0::real]"
   "\<forall>k<1. \<bar>[1::real] ! k\<bar> \<le> 1" "\<forall>x\<in>set (replicate 100 (0::real)). \<bar>x\<bar> \<le> 1"
    by (simp_all add: MAX_DELAY_def)
  have g: "\<bar>[1::real] ! 0\<bar> \<le> 1" "set (replicate 100 (0::real)) \<subseteq> {x. \<bar>x\<bar> \<le> 1}"
    by simp_all
  from comb_output_bounded[OF h, of 44100] h g show ?thesis by blast
qed


section \<open>FIR: one pass and whole blocks\<close>

















section \<open>Blocks of zero frames\<close>

lemma comb_run_zero:
  "float_to_unsigned UINT_BITS (comb_delay_control_value_l f) \<noteq> None \<Longrightarrow> comb_run_mono_filter f 0 = Some f"
  by (auto simp add: comb_run_mono_filter_def comb_filter_channel_def)

lemma comb_run_stereo_zero:
  "float_to_unsigned UINT_BITS (comb_delay_control_value_l f) \<noteq> None \<Longrightarrow>
   float_to_unsigned UINT_BITS (comb_delay_control_value_r f) \<noteq> None \<Longrightarrow> comb_run_stereo_filter f 0 = Some f"
  by (auto simp add: comb_run_stereo_filter_def comb_filter_channel_def)

lemma fir_run_zero:
  "get_sample_shift (fir_freq_control_value_l ff) (fir_sample_rate ff) \<noteq> None \<Longrightarrow>
   fir_run_mono_filter ff 0 = Some ff"
  by (auto simp add: fir_run_mono_filter_def fir_run_filter_def)

lemma fir_run_stereo_zero:
  "get_sample_shift (fir_freq_control_value_l ff) (fir_sample_rate ff) \<noteq> None \<Longrightarrow>
  get_sample_shift (fir_freq_control_value_r ff) (fir_sample_rate ff) \<noteq> None \<Longrightarrow>
   fir_run_stereo_filter ff 0 = Some ff"
  by (auto simp add: fir_run_stereo_filter_def fir_run_filter_def)

lemma iir_run_zero: "iir_run_mono_filter fi 0 = Some fi" "iir_run_stereo_filter fi 0 = Some fi"
  by (simp_all add: iir_run_mono_filter_def iir_run_stereo_filter_def iir_run_filter_def)

lemma reson_channel_zero: "0 < sr \<Longrightarrow> reson_filter_channel inp outp freq bw h 0 sr = Some (outp, h)"
  by (simp add: reson_filter_channel_def reson_coefficients_defined Let_def)

lemma reson_run_zero: "0 < reson_sample_rate fr \<Longrightarrow> reson_run_mono_filter fr 0 = Some fr"
   "0 < reson_sample_rate fr \<Longrightarrow> reson_run_stereo_filter fr 0 = Some fr"
  by (simp_all add: reson_run_mono_filter_def reson_run_stereo_filter_def reson_run_filter_def reson_channel_zero)

text \<open>
  Claim C8. A process call with a frame count of 0 is a no-op for every kernel, mono and
  stereo. The loops return their state at once: history, cursor, retained samples and the
  audio buffers are handed back as they were, also when the audio buffers are empty and when
  no history was ever allocated, where any access would be undefined; so no element is read
  or written. A whole \<^verbatim>\<open>run\<close> call returns the instance unchanged whenever the controls it
  converts before the loop are defined values (Comb: the delay fits an unsigned int; FIR: the
  tap offset is defined; Reson: the sample rate is not 0); IIR converts nothing.
\<close>

theorem zero_frames_is_no_op:
  "comb_filter_channel input outp delay sharpness history pos len 0 sample_rate
     = Some (outp, history) \<and>
   fir_run_filter_loop 0 stereo sl sr 0 ff = Some ff \<and>
   reson_filter_channel_loop 0 input r a g 0 (outp, history) = Some (outp, history) \<and>
   iir_run_mono_filter fi 0 = Some fi \<and> iir_run_stereo_filter fi 0 = Some fi \<and>
   (float_to_unsigned UINT_BITS (comb_delay_control_value_l fc) \<noteq> None \<longrightarrow>
      comb_run_mono_filter fc 0 = Some fc) \<and>
   (float_to_unsigned UINT_BITS (comb_delay_control_value_l fc) \<noteq> None \<and>
    float_to_unsigned UINT_BITS (comb_delay_control_value_r fc) \<noteq> None \<longrightarrow>
      comb_run_stereo_filter fc 0 = Some fc) \<and>
   (get_sample_shift (fir_freq_control_value_l ff) (fir_sample_rate ff) \<noteq> None \<longrightarrow>
      fir_run_mono_filter ff 0 = Some ff) \<and>
   (get_sample_shift (fir_freq_control_value_l ff) (fir_sample_rate ff) \<noteq> None \<and>
    get_sample_shift (fir_freq_control_value_r ff) (fir_sample_rate ff) \<noteq> None \<longrightarrow>
      fir_run_stereo_filter ff 0 = Some ff) \<and>
   (0 < reson_sample_rate fr \<longrightarrow>
      reson_run_mono_filter fr 0 = Some fr \<and> reson_run_stereo_filter fr 0 = Some fr)"
proof -
  have l: "comb_filter_channel input outp delay sharpness history pos len 0 sample_rate
      = Some (outp, history)"
    "fir_run_filter_loop 0 stereo sl sr 0 ff = Some ff"
    "reson_filter_channel_loop 0 input r a g 0 (outp, history) = Some (outp, history)"
    by (simp_all add: comb_filter_channel_def)
  show ?thesis
    using l comb_run_zero[of fc] comb_run_stereo_zero[of fc] fir_run_zero[of ff]
      fir_run_stereo_zero[of ff] iir_run_zero[of fi] reson_run_zero[of fr]
    by blast
qed

theorem zero_frames_is_no_op_witness:
  "float_to_unsigned UINT_BITS (comb_delay_control_value_l (comb_mono_instance 1 (1/2) [] [])) \<noteq> None \<and>
   float_to_unsigned UINT_BITS (comb_delay_control_value_r (comb_mono_instance 1 (1/2) [] [])) \<noteq> None \<and>
   get_sample_shift (fir_freq_control_value_l ((fir_mono_instance 20 0 [] [])\<lparr>fir_freq_control_value_r := 20\<rparr>))
      (fir_sample_rate ((fir_mono_instance 20 0 [] [])\<lparr>fir_freq_control_value_r := 20\<rparr>)) \<noteq> None \<and>
   get_sample_shift (fir_freq_control_value_r ((fir_mono_instance 20 0 [] [])\<lparr>fir_freq_control_value_r := 20\<rparr>))
      (fir_sample_rate ((fir_mono_instance 20 0 [] [])\<lparr>fir_freq_control_value_r := 20\<rparr>)) \<noteq> None \<and>
   0 < reson_sample_rate (reson_mono_instance 440 100 [] []) \<and>
   comb_run_mono_filter (comb_mono_instance 1 (1/2) [] []) 0 = Some (comb_mono_instance 1 (1/2) [] []) \<and>
   comb_run_stereo_filter (comb_mono_instance 1 (1/2) [] []) 0 = Some (comb_mono_instance 1 (1/2) [] []) \<and>
   fir_run_mono_filter ((fir_mono_instance 20 0 [] [])\<lparr>fir_freq_control_value_r := 20\<rparr>) 0
     = Some ((fir_mono_instance 20 0 [] [])\<lparr>fir_freq_control_value_r := 20\<rparr>) \<and>
   fir_run_stereo_filter ((fir_mono_instance 20 0 [] [])\<lparr>fir_freq_control_value_r := 20\<rparr>) 0
     = Some ((fir_mono_instance 20 0 [] [])\<lparr>fir_freq_control_value_r := 20\<rparr>) \<and>
   iir_run_mono_filter (iir_mono_instance (1/2) [] []) 0 = Some (iir_mono_instance (1/2) [] []) \<and>
   iir_run_stereo_filter (iir_mono_instance (1/2) [] []) 0 = Some (iir_mono_instance (1/2) [] []) \<and>
   reson_run_mono_filter (reson_mono_instance 440 100 [] []) 0 = Some (reson_mono_instance 440 100 [] []) \<and>
   reson_run_stereo_filter (reson_mono_instance 440 100 [] []) 0 = Some (reson_mono_instance 440 100 [] [])"
proof -
  have a: "float_to_unsigned UINT_BITS (comb_delay_control_value_l (comb_mono_instance 1 (1/2) [] [])) \<noteq> None"
    "float_to_unsigned UINT_BITS (comb_delay_control_value_r (comb_mono_instance 1 (1/2) [] [])) \<noteq> None"
    by (simp_all add: comb_mono_instance_def comb_instantiate_filter_def float_to_unsigned_def UINT_BITS_def)
  have b: "get_sample_shift (fir_freq_control_value_l ((fir_mono_instance 20 0 [] [])\<lparr>fir_freq_control_value_r := 20\<rparr>))
      (fir_sample_rate ((fir_mono_instance 20 0 [] [])\<lparr>fir_freq_control_value_r := 20\<rparr>)) \<noteq> None"
    "get_sample_shift (fir_freq_control_value_r ((fir_mono_instance 20 0 [] [])\<lparr>fir_freq_control_value_r := 20\<rparr>))
      (fir_sample_rate ((fir_mono_instance 20 0 [] [])\<lparr>fir_freq_control_value_r := 20\<rparr>)) \<noteq> None"
    by (simp_all add: fir_mono_instance_def fir_instantiate_filter_def get_sample_shift_def
        float_to_unsigned_def ULONG_BITS_def)
  have c: "0 < reson_sample_rate (reson_mono_instance 440 100 [] [])"
    by (simp add: reson_mono_instance_def reson_instantiate_filter_def)
  show ?thesis
    using a b c zero_frames_is_no_op[of "[]" "[]" 0 0 Wild 0 0 0 False 0 0
        "(fir_mono_instance 20 0 [] [])\<lparr>fir_freq_control_value_r := 20\<rparr>" 0 0 0
        "iir_mono_instance (1/2) [] []" "comb_mono_instance 1 (1/2) [] []"
        "reson_mono_instance 440 100 [] []"]
    by blast
qed

end
